theory Spec2Isabelle
  imports Main "HOL-Library.Sublist"
begin

section \<open>The Terminal-Bench wrapper of the TypeScript agent\<close>

text \<open>
  A shallow embedding of \<^verbatim>\<open>src/terminal_bench_wrapper.py\<close>: the class
  \<^verbatim>\<open>TypeScriptAgentWrapper\<close> with its methods \<^verbatim>\<open>_setup_environment\<close>,
  \<^verbatim>\<open>perform_task\<close>, \<^verbatim>\<open>_run_with_terminal_bench_session\<close>,
  \<^verbatim>\<open>_run_direct_execution\<close>, \<^verbatim>\<open>_find_tb_container_id\<close> and
  \<^verbatim>\<open>_capture_git_metadata\<close>.

  The methods talk to the outside: they read \<^verbatim>\<open>os.environ\<close>, start child processes
  with \<^verbatim>\<open>subprocess.run\<close>, create a directory and write files. What the outside answers
  is an input of the model (the record \<open>world\<close>); what the wrapper does to the outside
  is an output (a list of \<open>event\<close>s, in program order). A Python exception is a value of
  \<open>exn\<close>, and a method that may raise returns \<open>exn + 'a\<close> with \<open>Inl\<close> for the exception.
  The methods are given twice: first with a standard output that takes every text, where
  the calls of \<^verbatim>\<open>print\<close> do nothing and are left out, then with every \<^verbatim>\<open>print\<close> in
  its place and a standard output that may raise.
\<close>

subsection \<open>Python strings\<close>

text \<open>
  A \<^verbatim>\<open>str\<close> is a list of characters; a \<open>char\<close> stands for one code point below 256.
  \<open>isspace\<close> is \<^verbatim>\<open>str.isspace\<close> on such a code point (tab, line feed, vertical tab, form
  feed, carriage return, the separators 0x1C to 0x1F, space, next line 0x85, no-break space
  0xA0); \<open>is_linebreak\<close> lists the line boundaries of \<^verbatim>\<open>str.splitlines\<close> in that range.
\<close>

definition isspace :: "char \<Rightarrow> bool" where
  "isspace c = (c \<in> set [CHR 0x09, CHR 0x0A, CHR 0x0B, CHR 0x0C, CHR 0x0D,
                           CHR 0x1C, CHR 0x1D, CHR 0x1E, CHR 0x1F, CHR 0x20,
                           CHR 0x85, CHR 0xA0])"

definition is_linebreak :: "char \<Rightarrow> bool" where
  "is_linebreak c = (c \<in> set [CHR 0x0A, CHR 0x0B, CHR 0x0C, CHR 0x0D,
                                CHR 0x1C, CHR 0x1D, CHR 0x1E, CHR 0x85])"

text \<open>\<^verbatim>\<open>s.strip()\<close>: leading and trailing whitespace removed.\<close>

definition str_strip :: "string \<Rightarrow> string" where
  "str_strip s = rev (dropWhile isspace (rev (dropWhile isspace s)))"

text \<open>
  \<^verbatim>\<open>s.split()\<close>: the maximal runs of non-whitespace characters, in order. \<open>cur\<close> is the
  run being read, reversed.
\<close>

fun split_acc :: "string \<Rightarrow> string \<Rightarrow> string list" where
  "split_acc cur [] = (if cur = [] then [] else [rev cur])"
| "split_acc cur (c # cs) =
     (if isspace c
      then (if cur = [] then split_acc [] cs else rev cur # split_acc [] cs)
      else split_acc (c # cur) cs)"

definition str_split :: "string \<Rightarrow> string list" where
  "str_split s = split_acc [] s"

text \<open>
  \<^verbatim>\<open>s.splitlines()\<close>: the lines of \<open>s\<close> without their line breaks; a carriage return
  followed by a line feed is one break, and a break at the very end opens no further line.
  \<open>after_cr\<close> says that the character just read was a carriage return; \<open>cur\<close> is the
  line being read, reversed.
\<close>

fun splitlines_acc :: "bool \<Rightarrow> string \<Rightarrow> string \<Rightarrow> string list" where
  "splitlines_acc after_cr cur [] = (if cur = [] then [] else [rev cur])"
| "splitlines_acc after_cr cur (c # cs) =
     (if after_cr \<and> c = CHR 0x0A then splitlines_acc False cur cs
      else if is_linebreak c then rev cur # splitlines_acc (c = CHR 0x0D) [] cs
      else splitlines_acc False (c # cur) cs)"

definition str_splitlines :: "string \<Rightarrow> string list" where
  "str_splitlines s = splitlines_acc False [] s"

text \<open>\<^verbatim>\<open>sub in s\<close> and \<^verbatim>\<open>s.endswith(suf)\<close>.\<close>

fun str_contains :: "string \<Rightarrow> string \<Rightarrow> bool" where
  "str_contains sub [] = (sub = [])"
| "str_contains sub (c # cs) = (prefix sub (c # cs) \<or> str_contains sub cs)"

definition str_endswith :: "string \<Rightarrow> string \<Rightarrow> bool" where
  "str_endswith s suf = suffix suf s"

subsection \<open>Exceptions, results and the outside world\<close>

text \<open>
  The exceptions the wrapper can meet, all of them subclasses of \<^verbatim>\<open>Exception\<close>:
  \<^verbatim>\<open>subprocess.TimeoutExpired\<close>, \<^verbatim>\<open>subprocess.CalledProcessError\<close> (with the return
  code), \<^verbatim>\<open>RuntimeError\<close> (with its message), \<^verbatim>\<open>IndexError\<close>, \<^verbatim>\<open>OSError\<close> for
  whatever the operating system refuses (an executable that is not there, a directory that
  cannot be written, a broken pipe), \<^verbatim>\<open>ValueError\<close> (a closed file), and the two errors
  of text that cannot be decoded or encoded. The world below may answer a call with any of them, which is more
  than the real calls can raise; the handlers of the wrapper tell only
  \<^verbatim>\<open>TimeoutExpired\<close> from the rest.
\<close>

datatype exn =
    TimeoutExpired
  | CalledProcessError int
  | RuntimeError string
  | IndexError
  | OSError string
  | ValueError string
  | UnicodeDecodeError
  | UnicodeEncodeError

text \<open>The members of \<^verbatim>\<open>FailureMode\<close> that the wrapper uses, and \<^verbatim>\<open>AgentResult\<close>.\<close>

datatype FailureMode = NONE | AGENT_TIMEOUT | UNKNOWN_AGENT_ERROR

record AgentResult =
  failure_mode :: FailureMode
  total_input_tokens :: int
  total_output_tokens :: int

text \<open>\<^verbatim>\<open>subprocess.CompletedProcess\<close>, with the output captured as text.\<close>

record CompletedProcess =
  returncode :: int
  stdout :: string
  stderr :: string

text \<open>
  What is left of a process that has exited: its return code; after how many seconds its two
  output pipes are at their end (a descendant of the process can hold them open after the
  process itself has exited; \<open>None\<close> when they never are); and what it wrote to each pipe,
  decoded as text (\<open>None\<close> when the bytes are not valid text in the encoding in use).
\<close>

record exit_report =
  exit_code :: int
  pipes_closed :: "nat option"
  stdout_text :: "string option"
  stderr_text :: "string option"

text \<open>
  What the agent's process does once started: it exits after so many seconds and leaves a
  report, it never exits, or it cannot be started at all and \<^verbatim>\<open>subprocess.run\<close> raises.
\<close>

datatype process = Exits exit_report nat | Hangs | Fails exn

text \<open>
  \<^verbatim>\<open>subprocess.run(..., capture_output=True, text=True, timeout=t)\<close>. It reads both pipes to
  their end and waits for the process: if after \<open>t\<close> seconds the process is still running
  or a pipe is still open, the process is killed and \<^verbatim>\<open>TimeoutExpired\<close> is raised. It then
  decodes what it has read, which raises \<^verbatim>\<open>UnicodeDecodeError\<close> on bytes that are not
  valid text, and returns the \<^verbatim>\<open>CompletedProcess\<close>.
\<close>

definition run_with_timeout :: "nat \<Rightarrow> process \<Rightarrow> exn + CompletedProcess" where
  "run_with_timeout t p =
     (case p of
        Exits r secs \<Rightarrow>
          if t < secs then Inl TimeoutExpired
          else (case pipes_closed r of
                  None \<Rightarrow> Inl TimeoutExpired
                | Some closed \<Rightarrow>
                    if t < closed then Inl TimeoutExpired
                    else (case stdout_text r of
                            None \<Rightarrow> Inl UnicodeDecodeError
                          | Some out \<Rightarrow>
                              (case stderr_text r of
                                 None \<Rightarrow> Inl UnicodeDecodeError
                               | Some err \<Rightarrow>
                                   Inr \<lparr>returncode = exit_code r, stdout = out,
                                        stderr = err\<rparr>)))
      | Hangs \<Rightarrow> Inl TimeoutExpired
      | Fails e \<Rightarrow> Inl e)"

text \<open>
  \<^verbatim>\<open>subprocess.run(..., check=True)\<close>: a nonzero return code raises
  \<^verbatim>\<open>CalledProcessError\<close>.
\<close>

definition run_with_check :: "exn + CompletedProcess \<Rightarrow> exn + CompletedProcess" where
  "run_with_check r =
     (case r of
        Inl e \<Rightarrow> Inl e
      | Inr p \<Rightarrow> if returncode p = 0 then Inr p else Inl (CalledProcessError (returncode p)))"

text \<open>
  The version-control side of the outside world, used by \<^verbatim>\<open>_capture_git_metadata\<close> only:
  whether creating the run directory fails, what each \<^verbatim>\<open>git\<close> command does (by its
  arguments), and whether writing each snapshot file fails (by its name).
\<close>

record vcs =
  run_dir_mkdir :: "exn option"
  git :: "string list \<Rightarrow> exn + CompletedProcess"
  snapshot_write :: "string \<Rightarrow> exn option"

text \<open>
  The outside world of one call of \<^verbatim>\<open>perform_task\<close>: the process environment, what
  \<^verbatim>\<open>docker ps\<close> does (before \<^verbatim>\<open>check=True\<close> looks at its return code), what the agent's
  process does, whether creating the logging directory and writing each of the two log
  files fails in \<^verbatim>\<open>_run_direct_execution\<close>, and the version-control side.
\<close>

record world =
  environ :: "string \<rightharpoonup> string"
  docker_ps :: "exn + CompletedProcess"
  agent :: process
  log_mkdir :: "exn option"
  log_write :: "string \<Rightarrow> exn option"
  snapshot :: vcs

text \<open>
  What the wrapper does to the outside: it runs \<^verbatim>\<open>docker ps\<close>, runs the agent with a
  command line and an environment, runs \<^verbatim>\<open>git\<close> with arguments, creates a directory,
  writes a file (directory, name, content). A call that raises before it has an effect
  (a directory that cannot be created, a file that cannot be written) leaves no event; a
  call of \<^verbatim>\<open>subprocess.run\<close> leaves its event whatever the process does. The working
  directory of the agent and of \<^verbatim>\<open>git\<close> is always \<^verbatim>\<open>self.agent_dir\<close> and is not
  recorded.
\<close>

datatype event =
    DockerPs
  | AgentRun "string list" "string \<rightharpoonup> string"
  | GitRun "string list"
  | Mkdir string
  | WriteFile string string string

fun is_AgentRun :: "event \<Rightarrow> bool" where
  "is_AgentRun (AgentRun cmd env) = True"
| "is_AgentRun e = False"

text \<open>The command lines of the agent runs of a trace, in order.\<close>

fun agent_cmds :: "event list \<Rightarrow> string list list" where
  "agent_cmds [] = []"
| "agent_cmds (AgentRun cmd env # es) = cmd # agent_cmds es"
| "agent_cmds (e # es) = agent_cmds es"

text \<open>The events of logging and snapshotting: neither the container listing nor an agent run.\<close>

definition aux_event :: "event \<Rightarrow> bool" where
  "aux_event e = (e \<noteq> DockerPs \<and> \<not> is_AgentRun e)"

text \<open>
  A computation that raises or returns, together with the events it caused. \<open>bind_io\<close> is
  sequencing (an exception ends the sequence), \<open>try_except\<close> is
  \<^verbatim>\<open>try: ... except Exception as e: ...\<close>.
\<close>

type_synonym 'a io = "(exn + 'a) \<times> event list"

definition return_io :: "'a \<Rightarrow> 'a io" where
  "return_io x = (Inr x, [])"

definition raise_io :: "exn \<Rightarrow> 'a io" where
  "raise_io e = (Inl e, [])"

definition bind_io :: "'a io \<Rightarrow> ('a \<Rightarrow> 'b io) \<Rightarrow> 'b io" where
  "bind_io m f =
     (case m of
        (Inl e, t) \<Rightarrow> (Inl e, t)
      | (Inr x, t) \<Rightarrow> (case f x of (r, t') \<Rightarrow> (r, t @ t')))"

definition try_except :: "'a io \<Rightarrow> (exn \<Rightarrow> 'a io) \<Rightarrow> 'a io" where
  "try_except m handler =
     (case m of
        (Inl e, t) \<Rightarrow> (case handler e of (r, t') \<Rightarrow> (r, t @ t'))
      | (Inr x, t) \<Rightarrow> (Inr x, t))"

text \<open>The calls to the outside: each records its event and answers as the world says.\<close>

definition run_agent :: "world \<Rightarrow> string list \<Rightarrow> (string \<rightharpoonup> string) \<Rightarrow> nat \<Rightarrow> CompletedProcess io" where
  "run_agent w cmd env t = (run_with_timeout t (agent w), [AgentRun cmd env])"

definition run_git :: "world \<Rightarrow> string list \<Rightarrow> CompletedProcess io" where
  "run_git w args = (git (snapshot w) args, [GitRun args])"

definition mkdir_io :: "exn option \<Rightarrow> string \<Rightarrow> unit io" where
  "mkdir_io outcome d = (case outcome of Some e \<Rightarrow> (Inl e, []) | None \<Rightarrow> (Inr (), [Mkdir d]))"

definition write_io :: "exn option \<Rightarrow> string \<Rightarrow> string \<Rightarrow> string \<Rightarrow> unit io" where
  "write_io outcome d name content =
     (case outcome of Some e \<Rightarrow> (Inl e, []) | None \<Rightarrow> (Inr (), [WriteFile d name content]))"

subsection \<open>The wrapper\<close>

text \<open>The attributes that \<^verbatim>\<open>__init__\<close> sets and the methods below read.\<close>

record wrapper =
  node_executable :: string
  agent_script :: string
  agent_dir :: string

text \<open>The session, as far as the wrapper looks at it: \<^verbatim>\<open>hasattr(session, 'send_keys')\<close>.\<close>

record TmuxSession =
  has_send_keys :: bool

text \<open>\<^verbatim>\<open>_setup_environment\<close>, on a copy of \<^verbatim>\<open>os.environ\<close>.\<close>

definition setup_environment :: "(string \<rightharpoonup> string) \<Rightarrow> exn + (string \<rightharpoonup> string)" where
  "setup_environment os_environ =
     (let env = os_environ in
      if env ''OPENROUTER_API_KEY'' = None \<and> env ''OPENAI_API_KEY'' = None
      then Inl (RuntimeError
        ''No API key found. Please set OPENROUTER_API_KEY or OPENAI_API_KEY environment variable.'')
      else
        let env =
              (if env ''LITELLM_MODEL'' = None
               then (if env ''OPENROUTER_API_KEY'' \<noteq> None
                     then env(''LITELLM_MODEL'' \<mapsto> ''anthropic/claude-3.5-sonnet'')
                     else env(''LITELLM_MODEL'' \<mapsto> ''gpt-4''))
               else env);
            env =
              (if env ''LITELLM_TEMPERATURE'' = None
               then env(''LITELLM_TEMPERATURE'' \<mapsto> ''0.1'')
               else env)
        in Inr env)"

text \<open>
  \<^verbatim>\<open>_find_tb_container_id\<close>. \<open>scan_lines\<close> is its \<^verbatim>\<open>for\<close> loop over the lines of the
  listing: \<open>Some\<close> is the \<^verbatim>\<open>return name\<close> inside the loop, \<open>None\<close> is the loop running
  to its end.
\<close>

fun scan_lines :: "string list \<Rightarrow> string option" where
  "scan_lines [] = None"
| "scan_lines (line # rest) =
     (let parts = str_split line in
      if length parts < 3 then scan_lines rest
      else
        let cid = parts ! 0; image = parts ! 1; name = parts ! 2 in
        if str_contains ''terminal-bench'' image
           \<or> str_endswith name ''_agent_1'' \<or> str_endswith name ''_app_1''
        then Some name
        else scan_lines rest)"

text \<open>
  The body of the \<^verbatim>\<open>try\<close> after the listing has returned. The fallback
  \<^verbatim>\<open>lines[0].split()[0]\<close> raises \<^verbatim>\<open>IndexError\<close> on a first line without a field.
\<close>

definition pick_container :: "CompletedProcess \<Rightarrow> exn + string option" where
  "pick_container proc =
     (let lines = str_splitlines (str_strip (stdout proc)) in
      case scan_lines lines of
        Some name \<Rightarrow> Inr (Some name)
      | None \<Rightarrow>
          (case lines of
             [] \<Rightarrow> Inr None
           | first # _ \<Rightarrow>
               (case str_split first of
                  [] \<Rightarrow> Inl IndexError
                | cid # _ \<Rightarrow> Inr (Some cid))))"

definition find_tb_container_id :: "world \<Rightarrow> string option io" where
  "find_tb_container_id w =
     try_except
       (bind_io (run_with_check (docker_ps w), [DockerPs]) (\<lambda>proc.
          (pick_container proc, [])))
       (\<lambda>e. return_io None)"

text \<open>
  \<^verbatim>\<open>_capture_git_metadata\<close>. \<open>git_output\<close> is \<^verbatim>\<open>p.stdout or p.stderr or ''\<close>.
\<close>

definition git_output :: "CompletedProcess \<Rightarrow> string" where
  "git_output p = (if stdout p \<noteq> [] then stdout p else if stderr p \<noteq> [] then stderr p else [])"

definition capture_git_metadata :: "world \<Rightarrow> string option \<Rightarrow> unit io" where
  "capture_git_metadata w logging_dir =
     (case logging_dir of
        None \<Rightarrow> return_io ()
      | Some run_dir \<Rightarrow>
          bind_io (mkdir_io (run_dir_mkdir (snapshot w)) run_dir) (\<lambda>_.
          bind_io (run_git w [''status'', ''--porcelain=v1'', ''--branch'']) (\<lambda>status.
          bind_io (run_git w [''diff'']) (\<lambda>diff_ws.
          bind_io (run_git w [''diff'', ''--cached'']) (\<lambda>diff_staged.
          bind_io (run_git w [''show'', ''--no-patch'', ''--pretty=fuller'', ''HEAD'']) (\<lambda>head.
          bind_io (write_io (snapshot_write (snapshot w) ''git-status.txt'')
                     run_dir ''git-status.txt'' (git_output status)) (\<lambda>_.
          bind_io (write_io (snapshot_write (snapshot w) ''git-diff.patch'')
                     run_dir ''git-diff.patch'' (git_output diff_ws)) (\<lambda>_.
          bind_io (write_io (snapshot_write (snapshot w) ''git-diff-staged.patch'')
                     run_dir ''git-diff-staged.patch'' (git_output diff_staged)) (\<lambda>_.
          write_io (snapshot_write (snapshot w) ''git-head.txt'')
                     run_dir ''git-head.txt'' (git_output head))))))))))"

text \<open>
  The guarded call of both execution paths:
  \<^verbatim>\<open>try: self._capture_git_metadata(logging_dir)  except Exception as e: print(...)\<close>.
\<close>

definition capture_guarded :: "world \<Rightarrow> string option \<Rightarrow> unit io" where
  "capture_guarded w logging_dir =
     try_except (capture_git_metadata w logging_dir) (\<lambda>e. return_io ())"

text \<open>
  \<^verbatim>\<open>_run_direct_execution\<close>. Both of its handlers re-raise. The two log files are written
  only when a logging directory is given.
\<close>

definition write_logs :: "world \<Rightarrow> string option \<Rightarrow> CompletedProcess \<Rightarrow> unit io" where
  "write_logs w logging_dir result =
     (case logging_dir of
        None \<Rightarrow> return_io ()
      | Some d \<Rightarrow>
          bind_io (mkdir_io (log_mkdir w) d) (\<lambda>_.
          bind_io (write_io (log_write w ''typescript_agent_stdout.log'')
                     d ''typescript_agent_stdout.log'' (stdout result)) (\<lambda>_.
          write_io (log_write w ''typescript_agent_stderr.log'')
                     d ''typescript_agent_stderr.log'' (stderr result))))"

definition run_direct_execution ::
  "wrapper \<Rightarrow> world \<Rightarrow> string \<Rightarrow> (string \<rightharpoonup> string) \<Rightarrow> string option \<Rightarrow> AgentResult io" where
  "run_direct_execution self w instruction env logging_dir =
     try_except
       (let cmd = [node_executable self, agent_script self, ''run'', instruction] in
        bind_io (run_agent w cmd env 3600) (\<lambda>result.
        bind_io (write_logs w logging_dir result) (\<lambda>_.
        let success = (returncode result = 0) in
        bind_io (capture_guarded w logging_dir) (\<lambda>_.
        let failure_mode = (if success then NONE else UNKNOWN_AGENT_ERROR) in
        return_io \<lparr>failure_mode = failure_mode,
                   total_input_tokens = 0, total_output_tokens = 0\<rparr>))))
       (\<lambda>e. if e = TimeoutExpired then raise_io e else raise_io e)"

text \<open>
  \<^verbatim>\<open>_run_with_terminal_bench_session\<close>. \<^verbatim>\<open>if not container_id\<close> holds for \<^verbatim>\<open>None\<close> and
  for the empty string. The single handler \<^verbatim>\<open>except Exception\<close> returns a result.
\<close>

definition run_with_terminal_bench_session ::
  "wrapper \<Rightarrow> world \<Rightarrow> string \<Rightarrow> (string \<rightharpoonup> string) \<Rightarrow> string option \<Rightarrow> AgentResult io" where
  "run_with_terminal_bench_session self w instruction env logging_dir =
     try_except
       (bind_io (find_tb_container_id w) (\<lambda>found.
        case (case found of None \<Rightarrow> None | Some c \<Rightarrow> if c = [] then None else Some c) of
          None \<Rightarrow>
            return_io \<lparr>failure_mode = UNKNOWN_AGENT_ERROR,
                       total_input_tokens = 0, total_output_tokens = 0\<rparr>
        | Some container_id \<Rightarrow>
            (let cmd = [node_executable self, agent_script self, ''run'',
                        ''--container'', container_id, instruction] in
             bind_io (run_agent w cmd (env(''TERMINAL_BENCH_SESSION'' \<mapsto> ''true'')) 3600)
               (\<lambda>result.
             let success = (returncode result = 0) in
             bind_io (capture_guarded w logging_dir) (\<lambda>_.
             return_io \<lparr>failure_mode = (if success then NONE else UNKNOWN_AGENT_ERROR),
                        total_input_tokens = 0, total_output_tokens = 0\<rparr>)))))
       (\<lambda>e. return_io \<lparr>failure_mode = UNKNOWN_AGENT_ERROR,
                         total_input_tokens = 0, total_output_tokens = 0\<rparr>)"

text \<open>
  \<^verbatim>\<open>perform_task\<close>: the handler for \<^verbatim>\<open>TimeoutExpired\<close> comes first, the handler for
  every other \<^verbatim>\<open>Exception\<close> second.
\<close>

definition perform_task ::
  "wrapper \<Rightarrow> world \<Rightarrow> string \<Rightarrow> TmuxSession \<Rightarrow> string option \<Rightarrow> AgentResult io" where
  "perform_task self w instruction session logging_dir =
     try_except
       (bind_io (setup_environment (environ w), []) (\<lambda>env.
        if has_send_keys session
        then run_with_terminal_bench_session self w instruction env logging_dir
        else run_direct_execution self w instruction env logging_dir))
       (\<lambda>e. if e = TimeoutExpired
             then return_io \<lparr>failure_mode = AGENT_TIMEOUT,
                             total_input_tokens = 0, total_output_tokens = 0\<rparr>
             else return_io \<lparr>failure_mode = UNKNOWN_AGENT_ERROR,
                             total_input_tokens = 0, total_output_tokens = 0\<rparr>)"

subsection \<open>The wrapper with its diagnostics\<close>

text \<open>
  Above, standard output takes every text and the calls of \<^verbatim>\<open>print\<close> are left out. A
  call of \<^verbatim>\<open>print\<close> can raise: \<^verbatim>\<open>ValueError\<close> on a closed standard output,
  \<^verbatim>\<open>OSError\<close> on a broken pipe, \<^verbatim>\<open>UnicodeEncodeError\<close> on a text that standard output
  cannot encode. The three methods that print are given once more with every \<^verbatim>\<open>print\<close>
  of the source in its place. Each \<^verbatim>\<open>print\<close> statement runs at most once in a call of
  \<^verbatim>\<open>perform_task\<close>, so what standard output does is a function \<open>out\<close> from the source
  line of the statement to the exception it raises there, if any. A \<^verbatim>\<open>print\<close> leaves no
  event.
\<close>

definition print_io :: "(nat \<Rightarrow> exn option) \<Rightarrow> nat \<Rightarrow> unit io" where
  "print_io out line = (case out line of Some e \<Rightarrow> (Inl e, []) | None \<Rightarrow> (Inr (), []))"

text \<open>\<^verbatim>\<open>_run_direct_execution\<close> with its prints (lines 249 to 291 of the source).\<close>

definition run_direct_execution_prints ::
  "(nat \<Rightarrow> exn option) \<Rightarrow> wrapper \<Rightarrow> world \<Rightarrow> string \<Rightarrow> (string \<rightharpoonup> string) \<Rightarrow> string option
     \<Rightarrow> AgentResult io" where
  "run_direct_execution_prints out self w instruction env logging_dir =
     try_except
       (let cmd = [node_executable self, agent_script self, ''run'', instruction] in
        bind_io (print_io out 249) (\<lambda>_.
        bind_io (print_io out 250) (\<lambda>_.
        bind_io (print_io out 251) (\<lambda>_.
        bind_io (run_agent w cmd env 3600) (\<lambda>result.
        bind_io (write_logs w logging_dir result) (\<lambda>_.
        let success = (returncode result = 0) in
        bind_io (try_except (capture_git_metadata w logging_dir) (\<lambda>e. print_io out 281)) (\<lambda>_.
        let failure_mode = (if success then NONE else UNKNOWN_AGENT_ERROR) in
        bind_io (print_io out 286) (\<lambda>_.
        bind_io (print_io out 287) (\<lambda>_.
        bind_io (if stdout result \<noteq> [] then print_io out 289 else return_io ()) (\<lambda>_.
        bind_io (if stderr result \<noteq> [] then print_io out 291 else return_io ()) (\<lambda>_.
        return_io \<lparr>failure_mode = failure_mode,
                   total_input_tokens = 0, total_output_tokens = 0\<rparr>)))))))))))
       (\<lambda>e. if e = TimeoutExpired then raise_io e else raise_io e)"

text \<open>
  \<^verbatim>\<open>_run_with_terminal_bench_session\<close> with its prints (lines 164 to 222 of the source).
\<close>

definition run_with_terminal_bench_session_prints ::
  "(nat \<Rightarrow> exn option) \<Rightarrow> wrapper \<Rightarrow> world \<Rightarrow> string \<Rightarrow> (string \<rightharpoonup> string) \<Rightarrow> string option
     \<Rightarrow> AgentResult io" where
  "run_with_terminal_bench_session_prints out self w instruction env logging_dir =
     try_except
       (bind_io (print_io out 164) (\<lambda>_.
        bind_io (find_tb_container_id w) (\<lambda>found.
        case (case found of None \<Rightarrow> None | Some c \<Rightarrow> if c = [] then None else Some c) of
          None \<Rightarrow>
            bind_io (print_io out 173) (\<lambda>_.
            return_io \<lparr>failure_mode = UNKNOWN_AGENT_ERROR,
                       total_input_tokens = 0, total_output_tokens = 0\<rparr>)
        | Some container_id \<Rightarrow>
            bind_io (print_io out 180) (\<lambda>_.
            let cmd = [node_executable self, agent_script self, ''run'',
                       ''--container'', container_id, instruction] in
            bind_io (print_io out 192) (\<lambda>_.
            bind_io (run_agent w cmd (env(''TERMINAL_BENCH_SESSION'' \<mapsto> ''true'')) 3600)
              (\<lambda>result.
            bind_io (if stdout result \<noteq> [] then print_io out 203 else return_io ()) (\<lambda>_.
            bind_io (if stderr result \<noteq> [] then print_io out 205 else return_io ()) (\<lambda>_.
            let success = (returncode result = 0) in
            bind_io (try_except (capture_git_metadata w logging_dir) (\<lambda>e. print_io out 213))
              (\<lambda>_.
            return_io \<lparr>failure_mode = (if success then NONE else UNKNOWN_AGENT_ERROR),
                       total_input_tokens = 0, total_output_tokens = 0\<rparr>)))))))))
       (\<lambda>e. bind_io (print_io out 222) (\<lambda>_.
             return_io \<lparr>failure_mode = UNKNOWN_AGENT_ERROR,
                        total_input_tokens = 0, total_output_tokens = 0\<rparr>))"

text \<open>\<^verbatim>\<open>perform_task\<close> with its prints (lines 125, 126, 137 and 146 of the source).\<close>

definition perform_task_prints ::
  "(nat \<Rightarrow> exn option) \<Rightarrow> wrapper \<Rightarrow> world \<Rightarrow> string \<Rightarrow> TmuxSession \<Rightarrow> string option
     \<Rightarrow> AgentResult io" where
  "perform_task_prints out self w instruction session logging_dir =
     try_except
       (bind_io (setup_environment (environ w), []) (\<lambda>env.
        bind_io (print_io out 125) (\<lambda>_.
        bind_io (print_io out 126) (\<lambda>_.
        if has_send_keys session
        then run_with_terminal_bench_session_prints out self w instruction env logging_dir
        else run_direct_execution_prints out self w instruction env logging_dir))))
       (\<lambda>e. if e = TimeoutExpired
             then bind_io (print_io out 137) (\<lambda>_.
                  return_io \<lparr>failure_mode = AGENT_TIMEOUT,
                             total_input_tokens = 0, total_output_tokens = 0\<rparr>)
             else bind_io (print_io out 146) (\<lambda>_.
                  return_io \<lparr>failure_mode = UNKNOWN_AGENT_ERROR,
                             total_input_tokens = 0, total_output_tokens = 0\<rparr>))"

subsection \<open>Concrete inputs\<close>

text \<open>
  A wrapper, and a world in which everything goes well: one credential, one running container
  named after the task, an agent that exits with code 0 after twelve seconds, a writable
  logging directory and a working \<^verbatim>\<open>git\<close>.
\<close>

definition example_wrapper :: wrapper where
  "example_wrapper =
     \<lparr>node_executable = ''/usr/bin/node'', agent_script = ''/agent/dist/index.js'',
      agent_dir = ''/agent''\<rparr>"

definition example_vcs :: vcs where
  "example_vcs =
     \<lparr>run_dir_mkdir = None,
      git = (\<lambda>args. Inr \<lparr>returncode = 0, stdout = ''clean'', stderr = []\<rparr>),
      snapshot_write = (\<lambda>name. None)\<rparr>"

definition example_world :: world where
  "example_world =
     \<lparr>environ = [''OPENAI_API_KEY'' \<mapsto> ''sk-1''],
      docker_ps = Inr \<lparr>returncode = 0, stdout = ''abc123 ubuntu task_agent_1\<newline>'', stderr = []\<rparr>,
      agent = Exits \<lparr>exit_code = 0, pipes_closed = Some 12, stdout_text = Some ''done'',
                     stderr_text = Some []\<rparr> 12,
      log_mkdir = None,
      log_write = (\<lambda>name. None),
      snapshot = example_vcs\<rparr>"

text \<open>The same world with an agent that would exit one second after the timeout.\<close>

definition late_world :: world where
  "late_world =
     example_world\<lparr>agent := Exits \<lparr>exit_code = 0, pipes_closed = Some 3601,
                                      stdout_text = Some ''done'', stderr_text = Some []\<rparr> 3601\<rparr>"

text \<open>A version-control side on which \<^verbatim>\<open>git\<close> cannot be started.\<close>

definition vcs_without_git :: vcs where
  "vcs_without_git =
     \<lparr>run_dir_mkdir = None,
      git = (\<lambda>args. Inl (OSError ''git: command not found'')),
      snapshot_write = (\<lambda>name. None)\<rparr>"

text \<open>A listing of two containers, the second one on a dataset image.\<close>

definition two_containers :: CompletedProcess where
  "two_containers =
     \<lparr>returncode = 0,
      stdout = ''f00d redis cache\<newline>abc123 ghcr.io/terminal-bench/t1 client\<newline>'',
      stderr = []\<rparr>"

text \<open>
  Three standard outputs: one that takes every text, a closed one on which every
  \<^verbatim>\<open>print\<close> raises, and one that cannot encode what the agent wrote, so that the two
  statements that print the agent's standard output (lines 203 and 289) raise.
\<close>

definition quiet :: "nat \<Rightarrow> exn option" where
  "quiet line = None"

definition closed_stdout :: "nat \<Rightarrow> exn option" where
  "closed_stdout line = Some (ValueError ''I/O operation on closed file'')"

definition ascii_stdout :: "nat \<Rightarrow> exn option" where
  "ascii_stdout line = (if line = 203 \<or> line = 289 then Some UnicodeEncodeError else None)"

text \<open>
  Three more worlds, each with an agent that exits with code 0 after twelve seconds: the
  logging directory cannot be created; the agent's output is not valid text; a descendant
  of the agent never closes the output pipes.
\<close>

definition unwritable_world :: world where
  "unwritable_world = example_world\<lparr>log_mkdir := Some (OSError ''Permission denied'')\<rparr>"

definition undecodable_world :: world where
  "undecodable_world =
     example_world\<lparr>agent := Exits \<lparr>exit_code = 0, pipes_closed = Some 12, stdout_text = None,
                                      stderr_text = Some []\<rparr> 12\<rparr>"

definition open_pipes_world :: world where
  "open_pipes_world =
     example_world\<lparr>agent := Exits \<lparr>exit_code = 0, pipes_closed = None,
                                      stdout_text = Some ''done'', stderr_text = Some []\<rparr> 12\<rparr>"

text \<open>A computation whose result, if it returns one, has both token counts zero.\<close>

definition zero_tokens :: "AgentResult io \<Rightarrow> bool" where
  "zero_tokens m =
     (case fst m of
        Inl e \<Rightarrow> True
      | Inr r \<Rightarrow> total_input_tokens r = 0 \<and> total_output_tokens r = 0)"

section \<open>Properties\<close>

subsection \<open>Results and traces of the combinators and of each method\<close>


lemma fst_bind_io: "fst (bind_io m f) = (case fst m of Inl e \<Rightarrow> Inl e | Inr x \<Rightarrow> fst (f x))"
  by (simp add: bind_io_def split: prod.splits sum.splits)

lemma snd_bind_io:
  "snd (bind_io m f) = (case fst m of Inl e \<Rightarrow> snd m | Inr x \<Rightarrow> snd m @ snd (f x))"
  by (simp add: bind_io_def split: prod.splits sum.splits)

lemma fst_try_except:
  "fst (try_except m h) = (case fst m of Inl e \<Rightarrow> fst (h e) | Inr x \<Rightarrow> Inr x)"
  by (simp add: try_except_def split: prod.splits sum.splits)

lemma snd_try_except:
  "snd (try_except m h) = (case fst m of Inl e \<Rightarrow> snd m @ snd (h e) | Inr x \<Rightarrow> snd m)"
  by (simp add: try_except_def split: prod.splits sum.splits)

lemma fst_return_io: "fst (return_io x) = Inr x" and snd_return_io: "snd (return_io x) = []"
  and fst_raise_io: "fst (raise_io e) = Inl e" and snd_raise_io: "snd (raise_io e) = []"
  by (simp_all add: return_io_def raise_io_def)

lemmas io_simps = fst_bind_io snd_bind_io fst_try_except snd_try_except
  fst_return_io snd_return_io fst_raise_io snd_raise_io

text \<open>A property of every event of a sequence holds of the sequence.\<close>

lemma bind_io_events:
  assumes "\<forall>e\<in>set (snd m). P e" and "\<And>x. \<forall>e\<in>set (snd (f x)). P e"
  shows "\<forall>e\<in>set (snd (bind_io m f)). P e"
  using assms by (auto simp: snd_bind_io split: sum.splits)

lemma try_except_events:
  assumes "\<forall>e\<in>set (snd m). P e" and "\<And>x. \<forall>e\<in>set (snd (h x)). P e"
  shows "\<forall>e\<in>set (snd (try_except m h)). P e"
  using assms by (auto simp: snd_try_except split: sum.splits)


lemma mkdir_io_events: "\<forall>e\<in>set (snd (mkdir_io out d)). aux_event e"
  by (simp add: mkdir_io_def aux_event_def split: option.splits)

lemma write_io_events: "\<forall>e\<in>set (snd (write_io out d n c)). aux_event e"
  by (simp add: write_io_def aux_event_def split: option.splits)

lemma run_git_events: "\<forall>e\<in>set (snd (run_git w args)). aux_event e"
  by (simp add: run_git_def aux_event_def)

lemma return_io_events: "\<forall>e\<in>set (snd (return_io x)). P e"
  by (simp add: return_io_def)

lemma capture_git_metadata_events: "\<forall>e\<in>set (snd (capture_git_metadata w ld)). aux_event e"
proof (cases ld)
  case None
  then show ?thesis by (simp add: capture_git_metadata_def return_io_def)
next
  case (Some run_dir)
  show ?thesis
    unfolding capture_git_metadata_def Some option.case
    by (intro bind_io_events mkdir_io_events write_io_events run_git_events)
qed

lemma capture_guarded_events: "\<forall>e\<in>set (snd (capture_guarded w ld)). aux_event e"
  unfolding capture_guarded_def
  by (intro try_except_events capture_git_metadata_events return_io_events)

lemma capture_guarded_returns: "fst (capture_guarded w ld) = Inr ()"
  by (simp add: capture_guarded_def io_simps split: sum.splits)

lemma write_logs_events: "\<forall>e\<in>set (snd (write_logs w ld r)). aux_event e"
proof (cases ld)
  case None
  then show ?thesis by (simp add: write_logs_def return_io_def)
next
  case (Some d)
  show ?thesis
    unfolding write_logs_def Some option.case
    by (intro bind_io_events mkdir_io_events write_io_events)
qed

lemma agent_cmds_aux: "\<forall>e\<in>set t. aux_event e \<Longrightarrow> agent_cmds t = []"
  by (induction t rule: agent_cmds.induct) (auto simp: aux_event_def)

lemma agent_cmds_append: "agent_cmds (s @ t) = agent_cmds s @ agent_cmds t"
  by (induction s rule: agent_cmds.induct) auto


lemma find_tb_container_id_fst:
  "fst (find_tb_container_id w) =
     (case run_with_check (docker_ps w) of
        Inl e \<Rightarrow> Inr None
      | Inr proc \<Rightarrow> (case pick_container proc of Inl e \<Rightarrow> Inr None | Inr r \<Rightarrow> Inr r))"
  by (simp add: find_tb_container_id_def io_simps split: sum.splits)

lemma find_tb_container_id_snd: "snd (find_tb_container_id w) = [DockerPs]"
  by (simp add: find_tb_container_id_def io_simps split: sum.splits)

lemma run_agent_fst: "fst (run_agent w cmd env t) = run_with_timeout t (agent w)"
  and run_agent_snd: "snd (run_agent w cmd env t) = [AgentRun cmd env]"
  by (simp_all add: run_agent_def)

lemma run_direct_execution_fst:
  "fst (run_direct_execution self w instruction env logging_dir) =
     (case run_with_timeout 3600 (agent w) of
        Inl e \<Rightarrow> Inl e
      | Inr result \<Rightarrow>
          (case fst (write_logs w logging_dir result) of
             Inl e \<Rightarrow> Inl e
           | Inr u \<Rightarrow>
               Inr \<lparr>failure_mode = (if returncode result = 0 then NONE else UNKNOWN_AGENT_ERROR),
                    total_input_tokens = 0, total_output_tokens = 0\<rparr>))"
  by (simp add: run_direct_execution_def io_simps run_agent_fst capture_guarded_returns
      split: sum.splits)

lemma run_direct_execution_snd:
  "snd (run_direct_execution self w instruction env logging_dir) =
     AgentRun [node_executable self, agent_script self, ''run'', instruction] env #
     (case run_with_timeout 3600 (agent w) of
        Inl e \<Rightarrow> []
      | Inr result \<Rightarrow>
          snd (write_logs w logging_dir result) @
          (case fst (write_logs w logging_dir result) of
             Inl e \<Rightarrow> []
           | Inr u \<Rightarrow> snd (capture_guarded w logging_dir)))"
  by (simp add: run_direct_execution_def io_simps run_agent_fst run_agent_snd
      capture_guarded_returns split: sum.splits)


lemma run_with_terminal_bench_session_fst:
  "fst (run_with_terminal_bench_session self w instruction env logging_dir) =
     Inr \<lparr>failure_mode =
            (case fst (find_tb_container_id w) of
               Inr (Some c) \<Rightarrow>
                 (if c = [] then UNKNOWN_AGENT_ERROR
                  else (case run_with_timeout 3600 (agent w) of
                          Inl e \<Rightarrow> UNKNOWN_AGENT_ERROR
                        | Inr result \<Rightarrow>
                            if returncode result = 0 then NONE else UNKNOWN_AGENT_ERROR))
             | _ \<Rightarrow> UNKNOWN_AGENT_ERROR),
          total_input_tokens = 0, total_output_tokens = 0\<rparr>"
  by (simp add: run_with_terminal_bench_session_def io_simps run_agent_fst
      capture_guarded_returns find_tb_container_id_fst split: sum.splits option.splits)

lemma run_with_terminal_bench_session_snd:
  "snd (run_with_terminal_bench_session self w instruction env logging_dir) =
     DockerPs #
     (case fst (find_tb_container_id w) of
        Inr (Some c) \<Rightarrow>
          (if c = [] then []
           else AgentRun [node_executable self, agent_script self, ''run'',
                          ''--container'', c, instruction]
                  (env(''TERMINAL_BENCH_SESSION'' \<mapsto> ''true'')) #
                (case run_with_timeout 3600 (agent w) of
                   Inl e \<Rightarrow> []
                 | Inr result \<Rightarrow> snd (capture_guarded w logging_dir)))
      | _ \<Rightarrow> [])"
  by (simp add: run_with_terminal_bench_session_def io_simps run_agent_fst run_agent_snd
      capture_guarded_returns find_tb_container_id_fst find_tb_container_id_snd
      split: sum.splits option.splits)

lemma perform_task_fst:
  "fst (perform_task self w instruction session logging_dir) =
     (case setup_environment (environ w) of
        Inl e \<Rightarrow> Inr \<lparr>failure_mode = (if e = TimeoutExpired then AGENT_TIMEOUT else UNKNOWN_AGENT_ERROR),
                      total_input_tokens = 0, total_output_tokens = 0\<rparr>
      | Inr env \<Rightarrow>
          if has_send_keys session
          then fst (run_with_terminal_bench_session self w instruction env logging_dir)
          else (case fst (run_direct_execution self w instruction env logging_dir) of
                  Inl e \<Rightarrow> Inr \<lparr>failure_mode = (if e = TimeoutExpired then AGENT_TIMEOUT else UNKNOWN_AGENT_ERROR),
                      total_input_tokens = 0, total_output_tokens = 0\<rparr>
                | Inr r \<Rightarrow> Inr r))"
  by (simp add: perform_task_def io_simps run_with_terminal_bench_session_fst split: sum.splits)

lemma perform_task_snd:
  "snd (perform_task self w instruction session logging_dir) =
     (case setup_environment (environ w) of
        Inl e \<Rightarrow> []
      | Inr env \<Rightarrow>
          if has_send_keys session
          then snd (run_with_terminal_bench_session self w instruction env logging_dir)
          else snd (run_direct_execution self w instruction env logging_dir))"
  by (simp add: perform_task_def io_simps run_with_terminal_bench_session_fst split: sum.splits)

subsection \<open>Strings and the environment\<close>

lemma split_acc_nonempty: "x \<in> set (split_acc cur s) \<Longrightarrow> x \<noteq> []"
  by (induction s arbitrary: cur) (auto split: if_splits)

lemma str_split_nonempty: "x \<in> set (str_split s) \<Longrightarrow> x \<noteq> []"
  by (auto simp: str_split_def dest: split_acc_nonempty)

lemma str_strip_whitespace: "list_all isspace s \<Longrightarrow> str_strip s = []"
proof -
  assume "list_all isspace s"
  then have d: "dropWhile isspace s = []"
    by (simp add: list_all_iff)
  show ?thesis
    by (simp only: str_strip_def d rev.simps dropWhile.simps)
qed

lemma scan_lines_append: "scan_lines pre = None \<Longrightarrow> scan_lines (pre @ rest) = scan_lines rest"
  by (induction pre) (auto simp: Let_def split: if_splits)

lemma setup_environment_raises:
  "setup_environment os_environ = Inl e \<Longrightarrow> e \<noteq> TimeoutExpired"
  by (auto simp: setup_environment_def Let_def split: if_splits)

lemma setup_environment_succeeds:
  "(\<exists>env. setup_environment os_environ = Inr env) \<longleftrightarrow>
   (os_environ ''OPENROUTER_API_KEY'' \<noteq> None \<or> os_environ ''OPENAI_API_KEY'' \<noteq> None)"
  by (auto simp: setup_environment_def Let_def)

lemma discovery_first:
  "t = DockerPs # rest \<Longrightarrow> t = pre @ AgentRun cmd env # post \<Longrightarrow> DockerPs \<in> set pre"
  by (cases pre) auto

lemma direct_no_discovery:
  "DockerPs \<notin> set (snd (run_direct_execution self w instruction env logging_dir))"
proof -
  have "\<forall>e\<in>set (snd (write_logs w logging_dir r)). aux_event e" for r
    by (rule write_logs_events)
  moreover have "\<forall>e\<in>set (snd (capture_guarded w logging_dir)). aux_event e"
    by (rule capture_guarded_events)
  ultimately show ?thesis
    by (auto simp: run_direct_execution_snd aux_event_def split: sum.splits)
qed

lemma write_logs_snapshot: "write_logs (w\<lparr>snapshot := v\<rparr>) ld r = write_logs w ld r"
  by (cases ld) (simp_all add: write_logs_def)

lemma find_snapshot: "find_tb_container_id (w\<lparr>snapshot := v\<rparr>) = find_tb_container_id w"
  by (simp add: find_tb_container_id_def)

text \<open>The definitions that evaluate a call on a concrete input.\<close>

lemmas eval_defs = example_wrapper_def example_vcs_def example_world_def
  perform_task_def setup_environment_def run_with_terminal_bench_session_def
  run_direct_execution_def find_tb_container_id_def pick_container_def write_logs_def
  capture_guarded_def capture_git_metadata_def git_output_def
  return_io_def raise_io_def bind_io_def try_except_def run_agent_def run_git_def
  mkdir_io_def write_io_def run_with_check_def run_with_timeout_def
  str_splitlines_def str_strip_def str_split_def str_endswith_def isspace_def is_linebreak_def
  suffix_to_prefix

subsection \<open>The methods with their diagnostics\<close>

text \<open>On a standard output that takes every text they are the methods without prints.\<close>

lemma print_io_quiet: "out line = None \<Longrightarrow> print_io out line = return_io ()"
  by (simp add: print_io_def return_io_def)

lemma bind_io_return: "bind_io (return_io x) f = f x"
  by (simp add: bind_io_def return_io_def split: prod.splits)

lemma print_io_snd: "snd (print_io out line) = []"
  by (simp add: print_io_def split: option.splits)

lemma print_io_fst: "fst (print_io out line) = (case out line of Some e \<Rightarrow> Inl e | None \<Rightarrow> Inr ())"
  by (simp add: print_io_def split: option.splits)

lemma run_direct_execution_prints_quiet:
  assumes "\<And>line. out line = None"
  shows "run_direct_execution_prints out self w instruction env logging_dir =
         run_direct_execution self w instruction env logging_dir"
  by (simp add: run_direct_execution_prints_def run_direct_execution_def capture_guarded_def
      print_io_quiet [OF assms] bind_io_return cong: if_cong)

lemma run_with_terminal_bench_session_prints_quiet:
  assumes "\<And>line. out line = None"
  shows "run_with_terminal_bench_session_prints out self w instruction env logging_dir =
         run_with_terminal_bench_session self w instruction env logging_dir"
  by (simp add: run_with_terminal_bench_session_prints_def run_with_terminal_bench_session_def
      capture_guarded_def print_io_quiet [OF assms] bind_io_return
      cong: option.case_cong if_cong)

lemma perform_task_prints_quiet:
  assumes "\<And>line. out line = None"
  shows "perform_task_prints out self w instruction session logging_dir =
         perform_task self w instruction session logging_dir"
  by (simp add: perform_task_prints_def perform_task_def print_io_quiet [OF assms]
      bind_io_return run_direct_execution_prints_quiet [OF assms]
      run_with_terminal_bench_session_prints_quiet [OF assms] cong: if_cong)

text \<open>Whatever is printed and whatever raises, a result that is returned has zero token counts.\<close>

lemma zero_tokens_iff:
  "zero_tokens m \<longleftrightarrow>
     (\<forall>r. fst m = Inr r \<longrightarrow> total_input_tokens r = 0 \<and> total_output_tokens r = 0)"
  by (auto simp: zero_tokens_def split: sum.splits)

lemma zero_tokens_bind: "(\<And>x. zero_tokens (f x)) \<Longrightarrow> zero_tokens (bind_io m f)"
  unfolding zero_tokens_iff fst_bind_io by (cases "fst m") auto

lemma zero_tokens_try:
  "zero_tokens m \<Longrightarrow> (\<And>e. zero_tokens (h e)) \<Longrightarrow> zero_tokens (try_except m h)"
  unfolding zero_tokens_iff fst_try_except by (cases "fst m") auto

lemma zero_tokens_return:
  "zero_tokens (return_io \<lparr>failure_mode = m, total_input_tokens = 0, total_output_tokens = 0\<rparr>)"
  by (simp add: zero_tokens_def return_io_def)

lemma zero_tokens_raise: "zero_tokens (raise_io e)"
  by (simp add: zero_tokens_def raise_io_def)

lemma zero_tokens_if: "zero_tokens a \<Longrightarrow> zero_tokens b \<Longrightarrow> zero_tokens (if c then a else b)"
  by simp

lemma zero_tokens_option:
  "zero_tokens a \<Longrightarrow> (\<And>x. zero_tokens (b x)) \<Longrightarrow> zero_tokens (case v of None \<Rightarrow> a | Some x \<Rightarrow> b x)"
  by (cases v) simp_all

lemmas zero_tokens_intros = zero_tokens_bind zero_tokens_try zero_tokens_return
  zero_tokens_raise zero_tokens_if zero_tokens_option

lemma run_direct_execution_prints_zero:
  "zero_tokens (run_direct_execution_prints out self w instruction env logging_dir)"
  unfolding run_direct_execution_prints_def Let_def
  by (intro zero_tokens_intros)

lemma run_with_terminal_bench_session_prints_zero:
  "zero_tokens (run_with_terminal_bench_session_prints out self w instruction env logging_dir)"
  unfolding run_with_terminal_bench_session_prints_def Let_def
  by (intro zero_tokens_intros)

lemma perform_task_prints_zero:
  "zero_tokens (perform_task_prints out self w instruction session logging_dir)"
  unfolding perform_task_prints_def
  by (intro zero_tokens_intros run_direct_execution_prints_zero
      run_with_terminal_bench_session_prints_zero)

text \<open>
  An exception leaves \<^verbatim>\<open>perform_task\<close> only from the \<^verbatim>\<open>print\<close> of one of its two
  handlers.
\<close>

lemma perform_task_prints_raises:
  assumes "fst (perform_task_prints out self w instruction session logging_dir) = Inl e"
  shows "out 137 = Some e \<or> out 146 = Some e"
  using assms
  by (auto simp: perform_task_prints_def fst_try_except fst_bind_io fst_return_io print_io_fst
      split: sum.splits if_splits option.splits)

lemmas eval_prints_defs = eval_defs print_io_def perform_task_prints_def
  run_direct_execution_prints_def run_with_terminal_bench_session_prints_def

section \<open>The claims\<close>

text \<open>
  C1. The claim: whenever the agent's process runs longer than the timeout of 3600 seconds,
  on either path, the result is \<open>AGENT_TIMEOUT\<close> with both token counts zero. The code
  does so on the direct path only, where \<^verbatim>\<open>_run_direct_execution\<close> re-raises
  \<^verbatim>\<open>TimeoutExpired\<close> to the handler of \<^verbatim>\<open>perform_task\<close>. On the session path the
  handler \<^verbatim>\<open>except Exception\<close> of \<^verbatim>\<open>_run_with_terminal_bench_session\<close> catches it
  first, and the result is \<open>UNKNOWN_AGENT_ERROR\<close>. The theorem states what the code does on
  both paths, once the environment is resolved and a container is found.
\<close>

theorem C1_timeout_by_path:
  assumes "setup_environment (environ w) = Inr env"
    and "fst (find_tb_container_id w) = Inr (Some c)" and "c \<noteq> []"
    and "agent w = Hangs \<or> (\<exists>r secs. agent w = Exits r secs \<and> 3600 < secs)"
  shows "fst (perform_task self w instruction \<lparr>has_send_keys = False\<rparr> logging_dir) =
           Inr \<lparr>failure_mode = AGENT_TIMEOUT, total_input_tokens = 0, total_output_tokens = 0\<rparr>
       \<and> fst (perform_task self w instruction \<lparr>has_send_keys = True\<rparr> logging_dir) =
           Inr \<lparr>failure_mode = UNKNOWN_AGENT_ERROR, total_input_tokens = 0, total_output_tokens = 0\<rparr>"
proof -
  from assms(4) have t: "run_with_timeout 3600 (agent w) = Inl TimeoutExpired"
    by (auto simp: run_with_timeout_def)
  show ?thesis
    using assms(1-3) t
    by (simp add: perform_task_fst run_direct_execution_fst run_with_terminal_bench_session_fst)
qed

text \<open>
  C1 at a concrete input: the agent would exit after 3601 seconds.
\<close>

theorem C1_witness:
  "setup_environment (environ late_world) =
     Inr [''OPENAI_API_KEY'' \<mapsto> ''sk-1'', ''LITELLM_MODEL'' \<mapsto> ''gpt-4'',
          ''LITELLM_TEMPERATURE'' \<mapsto> ''0.1'']
   \<and> fst (find_tb_container_id late_world) = Inr (Some ''task_agent_1'')
   \<and> agent late_world =
       Exits \<lparr>exit_code = 0, pipes_closed = Some 3601, stdout_text = Some ''done'',
              stderr_text = Some []\<rparr> 3601
   \<and> fst (perform_task example_wrapper late_world ''fix it'' \<lparr>has_send_keys = False\<rparr> None) =
         Inr \<lparr>failure_mode = AGENT_TIMEOUT, total_input_tokens = 0, total_output_tokens = 0\<rparr>
   \<and> fst (perform_task example_wrapper late_world ''fix it'' \<lparr>has_send_keys = True\<rparr> None) =
         Inr \<lparr>failure_mode = UNKNOWN_AGENT_ERROR, total_input_tokens = 0,
              total_output_tokens = 0\<rparr>"
proof -
  have e: "setup_environment (environ late_world) =
     Inr [''OPENAI_API_KEY'' \<mapsto> ''sk-1'', ''LITELLM_MODEL'' \<mapsto> ''gpt-4'',
          ''LITELLM_TEMPERATURE'' \<mapsto> ''0.1'']"
    by (simp add: late_world_def example_world_def setup_environment_def)
  have c: "fst (find_tb_container_id late_world) = Inr (Some ''task_agent_1'')"
    by (simp add: late_world_def eval_defs)
  have l: "agent late_world =
       Exits \<lparr>exit_code = 0, pipes_closed = Some 3601, stdout_text = Some ''done'',
              stderr_text = Some []\<rparr> 3601"
    by (simp add: late_world_def)
  then have a: "agent late_world = Hangs \<or>
           (\<exists>r secs. agent late_world = Exits r secs \<and> 3600 < secs)"
    by simp
  show ?thesis
    using e c l C1_timeout_by_path [OF e c _ a, of example_wrapper "''fix it''" None]
    by simp
qed

text \<open>
  C2, as amended. On the session path, when the listing succeeds and the first line that the
  loop of \<^verbatim>\<open>_find_tb_container_id\<close> accepts has the fields id, image, name (and
  possibly more), with \<^verbatim>\<open>terminal-bench\<close> inside the image or a name ending in
  \<^verbatim>\<open>_agent_1\<close> or \<^verbatim>\<open>_app_1\<close>, discovery returns that container's name, and the
  name is the value after \<^verbatim>\<open>--container\<close> in the one agent command line of the call.
\<close>

theorem C2_first_match_name:
  assumes listing: "docker_ps w = Inr proc" "returncode proc = 0"
    and lines: "str_splitlines (str_strip (stdout proc)) = pre @ line # post"
    and earlier: "scan_lines pre = None"
    and fields: "str_split line = cid # img # name # others"
    and match: "str_contains ''terminal-bench'' img
                \<or> str_endswith name ''_agent_1'' \<or> str_endswith name ''_app_1''"
    and env: "setup_environment (environ w) = Inr env"
    and session: "has_send_keys session"
  shows "fst (find_tb_container_id w) = Inr (Some name)
       \<and> agent_cmds (snd (perform_task self w instruction session logging_dir)) =
           [[node_executable self, agent_script self, ''run'', ''--container'', name,
             instruction]]"
proof -
  have "scan_lines (line # post) = Some name"
    using fields match by (simp add: Let_def)
  with earlier have "scan_lines (pre @ line # post) = Some name"
    by (simp add: scan_lines_append)
  with lines have "pick_container proc = Inr (Some name)"
    by (simp add: pick_container_def)
  with listing have found: "fst (find_tb_container_id w) = Inr (Some name)"
    by (simp add: find_tb_container_id_fst run_with_check_def)
  have "name \<in> set (str_split line)"
    using fields by simp
  then have nonempty: "name \<noteq> []"
    by (rule str_split_nonempty)
  have quiet: "agent_cmds (snd (capture_guarded w logging_dir)) = []"
    by (rule agent_cmds_aux) (rule capture_guarded_events)
  have "agent_cmds (snd (run_with_terminal_bench_session self w instruction env logging_dir)) =
          [[node_executable self, agent_script self, ''run'', ''--container'', name,
            instruction]]"
    by (simp add: run_with_terminal_bench_session_snd found nonempty quiet split: sum.splits)
  with env session found show ?thesis
    by (simp add: perform_task_snd)
qed

text \<open>
  C2 at a concrete input: two containers, the second on a dataset image.
\<close>

theorem C2_witness:
  "str_splitlines (str_strip (stdout two_containers)) =
     [''f00d redis cache''] @ ''abc123 ghcr.io/terminal-bench/t1 client'' # []
   \<and> scan_lines [''f00d redis cache''] = None
   \<and> str_split ''abc123 ghcr.io/terminal-bench/t1 client'' =
       ''abc123'' # ''ghcr.io/terminal-bench/t1'' # ''client'' # []
   \<and> str_contains ''terminal-bench'' ''ghcr.io/terminal-bench/t1''
   \<and> fst (find_tb_container_id (example_world\<lparr>docker_ps := Inr two_containers\<rparr>)) =
       Inr (Some ''client'')
   \<and> agent_cmds (snd (perform_task example_wrapper
        (example_world\<lparr>docker_ps := Inr two_containers\<rparr>) ''fix it''
        \<lparr>has_send_keys = True\<rparr> None)) =
       [[''/usr/bin/node'', ''/agent/dist/index.js'', ''run'', ''--container'', ''client'',
         ''fix it'']]"
proof -
  have l: "str_splitlines (str_strip (stdout two_containers)) =
     [''f00d redis cache''] @ ''abc123 ghcr.io/terminal-bench/t1 client'' # []"
    by (simp add: two_containers_def str_splitlines_def str_strip_def isspace_def
        is_linebreak_def)
  have e: "scan_lines [''f00d redis cache''] = None"
    by (simp add: str_split_def isspace_def str_endswith_def suffix_to_prefix)
  have f: "str_split ''abc123 ghcr.io/terminal-bench/t1 client'' =
       ''abc123'' # ''ghcr.io/terminal-bench/t1'' # ''client'' # []"
    by (simp add: str_split_def isspace_def)
  have m: "str_contains ''terminal-bench'' ''ghcr.io/terminal-bench/t1''"
    by simp
  have v: "setup_environment (environ (example_world\<lparr>docker_ps := Inr two_containers\<rparr>)) =
     Inr [''OPENAI_API_KEY'' \<mapsto> ''sk-1'', ''LITELLM_MODEL'' \<mapsto> ''gpt-4'',
          ''LITELLM_TEMPERATURE'' \<mapsto> ''0.1'']"
    by (simp add: example_world_def setup_environment_def)
  have "fst (find_tb_container_id (example_world\<lparr>docker_ps := Inr two_containers\<rparr>)) =
          Inr (Some ''client'')
      \<and> agent_cmds (snd (perform_task example_wrapper
          (example_world\<lparr>docker_ps := Inr two_containers\<rparr>) ''fix it''
          \<lparr>has_send_keys = True\<rparr> None)) =
        [[node_executable example_wrapper, agent_script example_wrapper, ''run'',
          ''--container'', ''client'', ''fix it'']]"
    by (rule C2_first_match_name [OF _ _ l e f _ v])
       (simp_all add: two_containers_def)
  with l e f m show ?thesis
    by (simp add: example_wrapper_def)
qed

text \<open>
  C2 as stated fails: for the listing \<^verbatim>\<open>abc123 ubuntu task_agent_1\<close> discovery returns
  the name \<^verbatim>\<open>task_agent_1\<close>, and the command line does not carry the id
  \<^verbatim>\<open>abc123\<close>.
\<close>

theorem C2_counterexample:
  "fst (find_tb_container_id
          (example_world\<lparr>docker_ps :=
             Inr \<lparr>returncode = 0, stdout = ''abc123 ubuntu task_agent_1\<newline>'',
                  stderr = []\<rparr>\<rparr>)) = Inr (Some ''task_agent_1'')
   \<and> agent_cmds (snd (perform_task example_wrapper
          (example_world\<lparr>docker_ps :=
             Inr \<lparr>returncode = 0, stdout = ''abc123 ubuntu task_agent_1\<newline>'',
                  stderr = []\<rparr>\<rparr>) ''fix it'' \<lparr>has_send_keys = True\<rparr> None)) \<noteq>
       [[''/usr/bin/node'', ''/agent/dist/index.js'', ''run'', ''--container'', ''abc123'',
         ''fix it'']]"
  by (simp add: eval_defs)

text \<open>
  C3. When neither \<^verbatim>\<open>OPENROUTER_API_KEY\<close> nor \<^verbatim>\<open>OPENAI_API_KEY\<close> is in the
  environment, \<^verbatim>\<open>_setup_environment\<close> raises, and \<^verbatim>\<open>perform_task\<close> returns the
  result \<open>UNKNOWN_AGENT_ERROR\<close> with zero token counts and an empty trace: no process was
  started, no directory created, no file written.
\<close>

theorem C3_no_credentials:
  assumes "environ w ''OPENROUTER_API_KEY'' = None" and "environ w ''OPENAI_API_KEY'' = None"
  shows "(\<exists>e. setup_environment (environ w) = Inl e)
       \<and> perform_task self w instruction session logging_dir =
           (Inr \<lparr>failure_mode = UNKNOWN_AGENT_ERROR, total_input_tokens = 0,
                 total_output_tokens = 0\<rparr>, [])"
proof -
  have s: "setup_environment (environ w) = Inl (RuntimeError
        ''No API key found. Please set OPENROUTER_API_KEY or OPENAI_API_KEY environment variable.'')"
    using assms by (simp add: setup_environment_def)
  have "fst (perform_task self w instruction session logging_dir) =
      Inr \<lparr>failure_mode = UNKNOWN_AGENT_ERROR, total_input_tokens = 0, total_output_tokens = 0\<rparr>"
    by (simp add: perform_task_fst s)
  moreover have "snd (perform_task self w instruction session logging_dir) = []"
    by (simp add: perform_task_snd s)
  ultimately show ?thesis using s by (simp add: prod_eq_iff)
qed

text \<open>
  C3 at a concrete input: an empty environment.
\<close>

theorem C3_witness:
  "environ (example_world\<lparr>environ := Map.empty\<rparr>) ''OPENROUTER_API_KEY'' = None
   \<and> environ (example_world\<lparr>environ := Map.empty\<rparr>) ''OPENAI_API_KEY'' = None
   \<and> perform_task example_wrapper (example_world\<lparr>environ := Map.empty\<rparr>) ''fix it''
        \<lparr>has_send_keys = False\<rparr> (Some ''/runs/1'') =
       (Inr \<lparr>failure_mode = UNKNOWN_AGENT_ERROR, total_input_tokens = 0,
             total_output_tokens = 0\<rparr>, [])"
  using C3_no_credentials [of "example_world\<lparr>environ := Map.empty\<rparr>" example_wrapper
      "''fix it''" "\<lparr>has_send_keys = False\<rparr>" "Some ''/runs/1''"]
  by simp

text \<open>
  C4, as amended. Take a call in which no \<^verbatim>\<open>print\<close> raises, the agent was run, and
  \<^verbatim>\<open>subprocess.run\<close> returned its \<^verbatim>\<open>CompletedProcess\<close>: the process exited and its
  output pipes were at their end within the 3600 seconds, and what it wrote is valid text.
  Let, on the direct path, the logging directory and the two log files be written without an
  exception. Then the failure mode is \<open>NONE\<close> when the return code is 0 and
  \<open>UNKNOWN_AGENT_ERROR\<close> otherwise, and both token counts are zero.
\<close>

theorem C4_exit_code_classification:
  assumes prints: "\<And>line. out line = None"
    and exits: "agent w = Exits r secs" "secs \<le> 3600"
    and pipes: "pipes_closed r = Some closed" "closed \<le> 3600"
    and decoded: "stdout_text r = Some so" "stderr_text r = Some se"
    and ran: "agent_cmds (snd (perform_task_prints out self w instruction session logging_dir)) \<noteq> []"
    and logs: "has_send_keys session
               \<or> fst (write_logs w logging_dir
                        \<lparr>returncode = exit_code r, stdout = so, stderr = se\<rparr>) = Inr ()"
  shows "fst (perform_task_prints out self w instruction session logging_dir) =
           Inr \<lparr>failure_mode = (if exit_code r = 0 then NONE else UNKNOWN_AGENT_ERROR),
                total_input_tokens = 0, total_output_tokens = 0\<rparr>"
proof -
  have q: "perform_task_prints out self w instruction session logging_dir =
           perform_task self w instruction session logging_dir"
    by (rule perform_task_prints_quiet) (rule prints)
  from exits pipes decoded
  have r: "run_with_timeout 3600 (agent w) =
             Inr \<lparr>returncode = exit_code r, stdout = so, stderr = se\<rparr>"
    by (simp add: run_with_timeout_def)
  from ran obtain env where env: "setup_environment (environ w) = Inr env"
    unfolding q by (cases "setup_environment (environ w)") (simp_all add: perform_task_snd)
  show ?thesis
  proof (cases "has_send_keys session")
    case True
    with ran env obtain c where "fst (find_tb_container_id w) = Inr (Some c)" "c \<noteq> []"
      unfolding q
      by (auto simp: perform_task_snd run_with_terminal_bench_session_snd
          split: sum.splits option.splits if_splits)
    with True env r show ?thesis
      unfolding q by (simp add: perform_task_fst run_with_terminal_bench_session_fst)
  next
    case False
    with logs env r show ?thesis
      unfolding q by (simp add: perform_task_fst run_direct_execution_fst)
  qed
qed

text \<open>
  C4 at two concrete inputs: return code 0 on the direct path with logs, return code 2 on
  the session path.
\<close>

theorem C4_witness:
  "agent example_world =
     Exits \<lparr>exit_code = 0, pipes_closed = Some 12, stdout_text = Some ''done'',
            stderr_text = Some []\<rparr> 12
   \<and> fst (write_logs example_world (Some ''/runs/1'')
            \<lparr>returncode = 0, stdout = ''done'', stderr = []\<rparr>) = Inr ()
   \<and> fst (perform_task_prints quiet example_wrapper example_world ''fix it''
            \<lparr>has_send_keys = False\<rparr> (Some ''/runs/1'')) =
       Inr \<lparr>failure_mode = NONE, total_input_tokens = 0, total_output_tokens = 0\<rparr>
   \<and> fst (perform_task_prints quiet example_wrapper
            (example_world\<lparr>agent := Exits \<lparr>exit_code = 2, pipes_closed = Some 40,
                                             stdout_text = Some [], stderr_text = Some ''boom''\<rparr> 40\<rparr>)
            ''fix it'' \<lparr>has_send_keys = True\<rparr> None) =
       Inr \<lparr>failure_mode = UNKNOWN_AGENT_ERROR, total_input_tokens = 0,
            total_output_tokens = 0\<rparr>"
proof -
  have a: "agent example_world =
     Exits \<lparr>exit_code = 0, pipes_closed = Some 12, stdout_text = Some ''done'',
            stderr_text = Some []\<rparr> 12"
    by (simp add: example_world_def)
  have l: "fst (write_logs example_world (Some ''/runs/1'')
            \<lparr>returncode = 0, stdout = ''done'', stderr = []\<rparr>) = Inr ()"
    by (simp add: example_world_def write_logs_def bind_io_def mkdir_io_def write_io_def)
  have r1: "agent_cmds (snd (perform_task_prints quiet example_wrapper example_world ''fix it''
            \<lparr>has_send_keys = False\<rparr> (Some ''/runs/1''))) \<noteq> []"
    by (simp add: eval_prints_defs quiet_def ascii_stdout_def unwritable_world_def
        undecodable_world_def open_pipes_world_def)
  have r2: "agent_cmds (snd (perform_task_prints quiet example_wrapper
            (example_world\<lparr>agent := Exits \<lparr>exit_code = 2, pipes_closed = Some 40,
                                             stdout_text = Some [], stderr_text = Some ''boom''\<rparr> 40\<rparr>)
            ''fix it'' \<lparr>has_send_keys = True\<rparr> None)) \<noteq> []"
    by (simp add: eval_prints_defs quiet_def ascii_stdout_def unwritable_world_def
        undecodable_world_def open_pipes_world_def)
  have q: "quiet line = None" for line
    by (simp add: quiet_def)
  show ?thesis
    using a l
      C4_exit_code_classification [OF q a _ _ _ _ _ r1, of 12 "''done''" "[]"]
      C4_exit_code_classification [OF q _ _ _ _ _ _ r2,
        of "\<lparr>exit_code = 2, pipes_closed = Some 40, stdout_text = Some [],
             stderr_text = Some ''boom''\<rparr>" 40 40 "[]" "''boom''"]
    by simp
qed

text \<open>
  C4 as stated fails. In each of four calls the agent exits with code 0 after twelve seconds
  and the failure mode is not \<open>NONE\<close>: the logging directory cannot be created
  (\<open>UNKNOWN_AGENT_ERROR\<close>); the agent's output is not valid text and
  \<^verbatim>\<open>subprocess.run\<close> raises \<^verbatim>\<open>UnicodeDecodeError\<close> (\<open>UNKNOWN_AGENT_ERROR\<close>); the
  output pipes stay open and \<^verbatim>\<open>subprocess.run\<close> raises \<^verbatim>\<open>TimeoutExpired\<close>
  (\<open>AGENT_TIMEOUT\<close>); standard output cannot encode the agent's output and
  \<^verbatim>\<open>print(result.stdout)\<close> raises on the session path (\<open>UNKNOWN_AGENT_ERROR\<close>).
\<close>

theorem C4_counterexample:
  "agent unwritable_world =
     Exits \<lparr>exit_code = 0, pipes_closed = Some 12, stdout_text = Some ''done'',
            stderr_text = Some []\<rparr> 12
   \<and> agent_cmds (snd (perform_task_prints quiet example_wrapper unwritable_world ''fix it''
                        \<lparr>has_send_keys = False\<rparr> (Some ''/runs/1''))) =
       [[''/usr/bin/node'', ''/agent/dist/index.js'', ''run'', ''fix it'']]
   \<and> fst (perform_task_prints quiet example_wrapper unwritable_world ''fix it''
            \<lparr>has_send_keys = False\<rparr> (Some ''/runs/1'')) =
       Inr \<lparr>failure_mode = UNKNOWN_AGENT_ERROR, total_input_tokens = 0,
            total_output_tokens = 0\<rparr>
   \<and> agent undecodable_world =
       Exits \<lparr>exit_code = 0, pipes_closed = Some 12, stdout_text = None,
              stderr_text = Some []\<rparr> 12
   \<and> fst (perform_task_prints quiet example_wrapper undecodable_world ''fix it''
            \<lparr>has_send_keys = False\<rparr> None) =
       Inr \<lparr>failure_mode = UNKNOWN_AGENT_ERROR, total_input_tokens = 0,
            total_output_tokens = 0\<rparr>
   \<and> agent open_pipes_world =
       Exits \<lparr>exit_code = 0, pipes_closed = None, stdout_text = Some ''done'',
              stderr_text = Some []\<rparr> 12
   \<and> fst (perform_task_prints quiet example_wrapper open_pipes_world ''fix it''
            \<lparr>has_send_keys = False\<rparr> None) =
       Inr \<lparr>failure_mode = AGENT_TIMEOUT, total_input_tokens = 0, total_output_tokens = 0\<rparr>
   \<and> fst (perform_task_prints ascii_stdout example_wrapper example_world ''fix it''
            \<lparr>has_send_keys = True\<rparr> None) =
       Inr \<lparr>failure_mode = UNKNOWN_AGENT_ERROR, total_input_tokens = 0,
            total_output_tokens = 0\<rparr>"
  by (simp add: eval_prints_defs quiet_def ascii_stdout_def unwritable_world_def
        undecodable_world_def open_pipes_world_def)

text \<open>
  C5. When the listing raises, ends with a nonzero return code, or prints nothing but
  whitespace, \<^verbatim>\<open>_find_tb_container_id\<close> returns \<^verbatim>\<open>None\<close>; the session path then
  returns \<open>UNKNOWN_AGENT_ERROR\<close> with zero token counts, and the only thing done to the
  outside is the listing itself: no agent is run. In every world at all, discovery returns
  and does not raise.
\<close>

theorem C5_discovery_not_found:
  assumes "(\<exists>e. docker_ps w = Inl e)
         \<or> (\<exists>p. docker_ps w = Inr p \<and> (returncode p \<noteq> 0 \<or> list_all isspace (stdout p)))"
  shows "find_tb_container_id w = (Inr None, [DockerPs])
       \<and> run_with_terminal_bench_session self w instruction env logging_dir =
           (Inr \<lparr>failure_mode = UNKNOWN_AGENT_ERROR, total_input_tokens = 0,
                 total_output_tokens = 0\<rparr>, [DockerPs])
       \<and> (has_send_keys session \<longrightarrow>
            fst (perform_task self w instruction session logging_dir) =
              Inr \<lparr>failure_mode = UNKNOWN_AGENT_ERROR, total_input_tokens = 0,
                   total_output_tokens = 0\<rparr>
            \<and> agent_cmds (snd (perform_task self w instruction session logging_dir)) = [])
       \<and> (\<exists>found. fst (find_tb_container_id w') = Inr found)"
proof -
  have f: "fst (find_tb_container_id w) = Inr None"
    using assms
    by (auto simp: find_tb_container_id_fst run_with_check_def pick_container_def
        str_strip_whitespace str_splitlines_def)
  then have "find_tb_container_id w = (Inr None, [DockerPs])"
    by (simp add: prod_eq_iff find_tb_container_id_snd)
  moreover have "run_with_terminal_bench_session self w instruction env logging_dir =
           (Inr \<lparr>failure_mode = UNKNOWN_AGENT_ERROR, total_input_tokens = 0,
                 total_output_tokens = 0\<rparr>, [DockerPs])"
    by (simp add: prod_eq_iff run_with_terminal_bench_session_fst
        run_with_terminal_bench_session_snd f)
  moreover have "fst (perform_task self w instruction session logging_dir) =
              Inr \<lparr>failure_mode = UNKNOWN_AGENT_ERROR, total_input_tokens = 0,
                   total_output_tokens = 0\<rparr>
            \<and> agent_cmds (snd (perform_task self w instruction session logging_dir)) = []"
    if "has_send_keys session"
    using that
    by (auto simp: perform_task_fst perform_task_snd run_with_terminal_bench_session_fst
        run_with_terminal_bench_session_snd f split: sum.splits
        dest: setup_environment_raises)
  moreover have "\<exists>found. fst (find_tb_container_id w') = Inr found"
    by (simp add: find_tb_container_id_fst split: sum.splits)
  ultimately show ?thesis by simp
qed

text \<open>
  C5 at two concrete inputs: \<^verbatim>\<open>docker\<close> cannot be started; the listing is a lone
  line feed.
\<close>

theorem C5_witness:
  "find_tb_container_id (example_world\<lparr>docker_ps := Inl (OSError ''docker: command not found'')\<rparr>)
     = (Inr None, [DockerPs])
   \<and> list_all isspace ''\<newline>''
   \<and> find_tb_container_id
        (example_world\<lparr>docker_ps := Inr \<lparr>returncode = 0, stdout = ''\<newline>'', stderr = []\<rparr>\<rparr>)
     = (Inr None, [DockerPs])
   \<and> perform_task example_wrapper
        (example_world\<lparr>docker_ps := Inr \<lparr>returncode = 0, stdout = ''\<newline>'', stderr = []\<rparr>\<rparr>)
        ''fix it'' \<lparr>has_send_keys = True\<rparr> None
     = (Inr \<lparr>failure_mode = UNKNOWN_AGENT_ERROR, total_input_tokens = 0,
             total_output_tokens = 0\<rparr>, [DockerPs])"
proof -
  have s: "list_all isspace ''\<newline>''"
    by (simp add: isspace_def)
  have p: "perform_task example_wrapper
        (example_world\<lparr>docker_ps := Inr \<lparr>returncode = 0, stdout = ''\<newline>'', stderr = []\<rparr>\<rparr>)
        ''fix it'' \<lparr>has_send_keys = True\<rparr> None
     = run_with_terminal_bench_session example_wrapper
        (example_world\<lparr>docker_ps := Inr \<lparr>returncode = 0, stdout = ''\<newline>'', stderr = []\<rparr>\<rparr>)
        ''fix it'' [''OPENAI_API_KEY'' \<mapsto> ''sk-1'', ''LITELLM_MODEL'' \<mapsto> ''gpt-4'',
          ''LITELLM_TEMPERATURE'' \<mapsto> ''0.1''] None"
    by (simp add: perform_task_fst perform_task_snd prod_eq_iff example_world_def
        setup_environment_def)
  show ?thesis
    using s
      C5_discovery_not_found
        [of "example_world\<lparr>docker_ps := Inl (OSError ''docker: command not found'')\<rparr>"]
      C5_discovery_not_found
        [of "example_world\<lparr>docker_ps := Inr \<lparr>returncode = 0, stdout = ''\<newline>'', stderr = []\<rparr>\<rparr>"
            example_wrapper "''fix it''"
            "[''OPENAI_API_KEY'' \<mapsto> ''sk-1'', ''LITELLM_MODEL'' \<mapsto> ''gpt-4'',
              ''LITELLM_TEMPERATURE'' \<mapsto> ''0.1'']" None]
    by (simp add: p)
qed

text \<open>
  C6. The guarded call of \<^verbatim>\<open>_capture_git_metadata\<close> never raises, and the result of
  \<^verbatim>\<open>perform_task\<close> does not depend on the version-control side of the world: whatever
  the snapshot does or fails to do, the result is the one of any other snapshot behaviour.
\<close>

theorem C6_snapshot_failure_contained:
  "fst (capture_guarded w logging_dir) = Inr ()
   \<and> fst (perform_task self (w\<lparr>snapshot := v\<rparr>) instruction session logging_dir) =
     fst (perform_task self w instruction session logging_dir)"
proof -
  have d: "fst (run_direct_execution self (w\<lparr>snapshot := v\<rparr>) instruction env logging_dir) =
           fst (run_direct_execution self w instruction env logging_dir)" for env
    by (simp add: run_direct_execution_fst write_logs_snapshot cong: sum.case_cong)
  have s: "fst (run_with_terminal_bench_session self (w\<lparr>snapshot := v\<rparr>) instruction env
                  logging_dir) =
           fst (run_with_terminal_bench_session self w instruction env logging_dir)" for env
    by (simp add: run_with_terminal_bench_session_fst find_snapshot
        cong: sum.case_cong option.case_cong if_cong)
  show ?thesis
    by (simp add: capture_guarded_returns perform_task_fst d s cong: sum.case_cong if_cong)
qed

text \<open>
  C6 at a concrete input: \<^verbatim>\<open>git\<close> cannot be started, the snapshot raises, and the
  result is still \<open>NONE\<close>.
\<close>

theorem C6_witness:
  "fst (capture_git_metadata (example_world\<lparr>snapshot := vcs_without_git\<rparr>) (Some ''/runs/1'')) =
     Inl (OSError ''git: command not found'')
   \<and> fst (perform_task example_wrapper (example_world\<lparr>snapshot := vcs_without_git\<rparr>) ''fix it''
            \<lparr>has_send_keys = False\<rparr> (Some ''/runs/1'')) =
       Inr \<lparr>failure_mode = NONE, total_input_tokens = 0, total_output_tokens = 0\<rparr>"
proof -
  have "fst (perform_task example_wrapper example_world ''fix it''
            \<lparr>has_send_keys = False\<rparr> (Some ''/runs/1'')) =
       Inr \<lparr>failure_mode = NONE, total_input_tokens = 0, total_output_tokens = 0\<rparr>"
    by (simp add: eval_defs)
  moreover have "fst (capture_git_metadata (example_world\<lparr>snapshot := vcs_without_git\<rparr>)
                   (Some ''/runs/1'')) = Inl (OSError ''git: command not found'')"
    by (simp add: capture_git_metadata_def vcs_without_git_def bind_io_def mkdir_io_def
        run_git_def)
  ultimately show ?thesis
    using C6_snapshot_failure_contained [of example_world "Some ''/runs/1''" example_wrapper
        vcs_without_git "''fix it''" "\<lparr>has_send_keys = False\<rparr>"]
    by simp
qed

text \<open>
  C7. With a session that has \<^verbatim>\<open>send_keys\<close>, every agent run of the trace comes after
  the container listing, and the listing is the first thing done once the environment is
  resolved; with a session that lacks it, the trace has no container listing.
\<close>

theorem C7_discovery_before_agent:
  "(has_send_keys session \<longrightarrow>
      (\<forall>pre cmd env post.
          snd (perform_task self w instruction session logging_dir) = pre @ AgentRun cmd env # post
          \<longrightarrow> DockerPs \<in> set pre))
   \<and> (has_send_keys session \<and> (\<exists>env. setup_environment (environ w) = Inr env) \<longrightarrow>
        (\<exists>rest. snd (perform_task self w instruction session logging_dir) = DockerPs # rest))
   \<and> (\<not> has_send_keys session \<longrightarrow>
        DockerPs \<notin> set (snd (perform_task self w instruction session logging_dir)))"
proof (intro conjI impI allI)
  fix pre cmd env post
  assume s: "has_send_keys session"
    and t: "snd (perform_task self w instruction session logging_dir) = pre @ AgentRun cmd env # post"
  show "DockerPs \<in> set pre"
  proof (cases "setup_environment (environ w)")
    case (Inl e)
    with t show ?thesis by (simp add: perform_task_snd)
  next
    case (Inr env')
    with s have "\<exists>rest. snd (perform_task self w instruction session logging_dir) = DockerPs # rest"
      by (simp add: perform_task_snd run_with_terminal_bench_session_snd)
    with t show ?thesis by (auto dest: discovery_first)
  qed
next
  assume "has_send_keys session \<and> (\<exists>env. setup_environment (environ w) = Inr env)"
  then show "\<exists>rest. snd (perform_task self w instruction session logging_dir) = DockerPs # rest"
    by (auto simp: perform_task_snd run_with_terminal_bench_session_snd)
next
  assume "\<not> has_send_keys session"
  then show "DockerPs \<notin> set (snd (perform_task self w instruction session logging_dir))"
    by (simp add: perform_task_snd direct_no_discovery split: sum.splits)
qed

text \<open>
  C7 at a concrete input, on both paths.
\<close>

theorem C7_witness:
  "snd (perform_task example_wrapper example_world ''fix it'' \<lparr>has_send_keys = True\<rparr> None) =
     [DockerPs] @
     AgentRun [''/usr/bin/node'', ''/agent/dist/index.js'', ''run'', ''--container'',
               ''task_agent_1'', ''fix it'']
       [''OPENAI_API_KEY'' \<mapsto> ''sk-1'', ''LITELLM_MODEL'' \<mapsto> ''gpt-4'',
        ''LITELLM_TEMPERATURE'' \<mapsto> ''0.1'', ''TERMINAL_BENCH_SESSION'' \<mapsto> ''true''] # []
   \<and> DockerPs \<in> set [DockerPs]
   \<and> DockerPs \<notin> set (snd (perform_task example_wrapper example_world ''fix it''
                              \<lparr>has_send_keys = False\<rparr> None))"
proof -
  have t: "snd (perform_task example_wrapper example_world ''fix it'' \<lparr>has_send_keys = True\<rparr> None) =
     [DockerPs] @
     AgentRun [''/usr/bin/node'', ''/agent/dist/index.js'', ''run'', ''--container'',
               ''task_agent_1'', ''fix it'']
       [''OPENAI_API_KEY'' \<mapsto> ''sk-1'', ''LITELLM_MODEL'' \<mapsto> ''gpt-4'',
        ''LITELLM_TEMPERATURE'' \<mapsto> ''0.1'', ''TERMINAL_BENCH_SESSION'' \<mapsto> ''true''] # []"
    by (simp add: eval_defs)
  show ?thesis
    using t
      C7_discovery_before_agent [of "\<lparr>has_send_keys = True\<rparr>" example_wrapper example_world
        "''fix it''" None]
      C7_discovery_before_agent [of "\<lparr>has_send_keys = False\<rparr>" example_wrapper example_world
        "''fix it''" None]
    by simp
qed

text \<open>
  C8. With exactly one of the two credentials and no \<^verbatim>\<open>LITELLM_MODEL\<close>, the resolved
  environment has the model of that credential: \<^verbatim>\<open>anthropic/claude-3.5-sonnet\<close> for
  \<^verbatim>\<open>OPENROUTER_API_KEY\<close>, \<^verbatim>\<open>gpt-4\<close> for \<^verbatim>\<open>OPENAI_API_KEY\<close>; and
  \<^verbatim>\<open>LITELLM_TEMPERATURE\<close> is \<^verbatim>\<open>0.1\<close> when it was unset and unchanged otherwise.
\<close>

theorem C8_default_model:
  assumes "os_environ ''LITELLM_MODEL'' = None"
    and "(os_environ ''OPENROUTER_API_KEY'' = None) \<noteq> (os_environ ''OPENAI_API_KEY'' = None)"
  shows "\<exists>env. setup_environment os_environ = Inr env
       \<and> env ''LITELLM_MODEL'' =
           Some (if os_environ ''OPENAI_API_KEY'' = None
                 then ''anthropic/claude-3.5-sonnet'' else ''gpt-4'')
       \<and> env ''LITELLM_TEMPERATURE'' =
           (case os_environ ''LITELLM_TEMPERATURE'' of None \<Rightarrow> Some ''0.1'' | Some t \<Rightarrow> Some t)"
  using assms by (auto simp: setup_environment_def Let_def split: option.splits)

text \<open>
  C8 at two concrete inputs, one for each credential.
\<close>

theorem C8_witness:
  "(\<exists>env. setup_environment [''OPENROUTER_API_KEY'' \<mapsto> ''or-1''] = Inr env
       \<and> env ''LITELLM_MODEL'' = Some ''anthropic/claude-3.5-sonnet''
       \<and> env ''LITELLM_TEMPERATURE'' = Some ''0.1'')
   \<and> (\<exists>env. setup_environment [''OPENAI_API_KEY'' \<mapsto> ''sk-1'', ''LITELLM_TEMPERATURE'' \<mapsto> ''0.7'']
               = Inr env
       \<and> env ''LITELLM_MODEL'' = Some ''gpt-4''
       \<and> env ''LITELLM_TEMPERATURE'' = Some ''0.7'')"
  using C8_default_model [of "[''OPENROUTER_API_KEY'' \<mapsto> ''or-1'']"]
    C8_default_model [of "[''OPENAI_API_KEY'' \<mapsto> ''sk-1'', ''LITELLM_TEMPERATURE'' \<mapsto> ''0.7'']"]
  by simp

text \<open>
  C9, as amended. When the \<^verbatim>\<open>print\<close> of neither handler of \<^verbatim>\<open>perform_task\<close>
  (line 137, line 146) raises, \<^verbatim>\<open>perform_task\<close> returns an \<^verbatim>\<open>AgentResult\<close> with
  both token counts zero, for every wrapper, world, instruction, session and logging
  directory and whatever any other \<^verbatim>\<open>print\<close> does: every exception of the model raised
  on the way is converted. The exceptions of the model are subclasses of
  \<^verbatim>\<open>Exception\<close>, and the container listing and the \<^verbatim>\<open>git\<close> commands return or
  raise.
\<close>

theorem C9_perform_task_returns:
  assumes "out 137 = None" and "out 146 = None"
  shows "\<exists>r. fst (perform_task_prints out self w instruction session logging_dir) = Inr r
           \<and> total_input_tokens r = 0 \<and> total_output_tokens r = 0"
proof (cases "fst (perform_task_prints out self w instruction session logging_dir)")
  case (Inl e)
  then have "out 137 = Some e \<or> out 146 = Some e"
    by (rule perform_task_prints_raises)
  with assms show ?thesis by simp
next
  case (Inr r)
  with perform_task_prints_zero [of out self w instruction session logging_dir]
  show ?thesis by (simp add: zero_tokens_def)
qed

text \<open>
  C9 at a concrete input: on the direct path the \<^verbatim>\<open>print\<close> of the agent's output
  raises \<^verbatim>\<open>UnicodeEncodeError\<close>, the handler of \<^verbatim>\<open>perform_task\<close> prints and returns
  \<open>UNKNOWN_AGENT_ERROR\<close>.
\<close>

theorem C9_witness:
  "ascii_stdout 137 = None \<and> ascii_stdout 146 = None
   \<and> ascii_stdout 289 = Some UnicodeEncodeError
   \<and> fst (perform_task_prints ascii_stdout example_wrapper example_world ''fix it''
            \<lparr>has_send_keys = False\<rparr> None) =
       Inr \<lparr>failure_mode = UNKNOWN_AGENT_ERROR, total_input_tokens = 0,
            total_output_tokens = 0\<rparr>"
proof -
  have "fst (perform_task_prints ascii_stdout example_wrapper example_world ''fix it''
            \<lparr>has_send_keys = False\<rparr> None) =
       Inr \<lparr>failure_mode = UNKNOWN_AGENT_ERROR, total_input_tokens = 0,
            total_output_tokens = 0\<rparr>"
    by (simp add: eval_prints_defs ascii_stdout_def)
  then show ?thesis
    using C9_perform_task_returns [of ascii_stdout example_wrapper example_world "''fix it''"
        "\<lparr>has_send_keys = False\<rparr>" None]
    by (simp add: ascii_stdout_def)
qed

text \<open>
  C9 as stated fails: with standard output closed, the \<^verbatim>\<open>print\<close> at line 125 raises
  \<^verbatim>\<open>ValueError\<close>, the handler at line 144 catches it, its own \<^verbatim>\<open>print\<close> at line 146
  raises again, and the exception leaves \<^verbatim>\<open>perform_task\<close>.
\<close>

theorem C9_counterexample:
  "perform_task_prints closed_stdout example_wrapper example_world ''fix it''
     \<lparr>has_send_keys = False\<rparr> None =
   (Inl (ValueError ''I/O operation on closed file''), [])"
  by (simp add: eval_prints_defs closed_stdout_def)

text \<open>
  C10. With both credentials present and no \<^verbatim>\<open>LITELLM_MODEL\<close>, the resolved model
  is \<^verbatim>\<open>anthropic/claude-3.5-sonnet\<close>, not \<^verbatim>\<open>gpt-4\<close>.
\<close>

theorem C10_openrouter_precedence:
  assumes "os_environ ''LITELLM_MODEL'' = None"
    and "os_environ ''OPENROUTER_API_KEY'' \<noteq> None" and "os_environ ''OPENAI_API_KEY'' \<noteq> None"
  shows "\<exists>env. setup_environment os_environ = Inr env
       \<and> env ''LITELLM_MODEL'' = Some ''anthropic/claude-3.5-sonnet''
       \<and> env ''LITELLM_MODEL'' \<noteq> Some ''gpt-4''"
  using assms by (auto simp: setup_environment_def Let_def split: option.splits)

text \<open>
  C10 at a concrete input.
\<close>

theorem C10_witness:
  "\<exists>env. setup_environment [''OPENROUTER_API_KEY'' \<mapsto> ''or-1'', ''OPENAI_API_KEY'' \<mapsto> ''sk-1'']
            = Inr env
       \<and> env ''LITELLM_MODEL'' = Some ''anthropic/claude-3.5-sonnet''
       \<and> env ''LITELLM_MODEL'' \<noteq> Some ''gpt-4''"
  using C10_openrouter_precedence
    [of "[''OPENROUTER_API_KEY'' \<mapsto> ''or-1'', ''OPENAI_API_KEY'' \<mapsto> ''sk-1'']"]
  by simp

end
